theory Spec2Isabelle
  imports Complex_Main "HOL-Library.Sublist"
begin

section \<open>The solo8 vanilla environment (gym\_solo/envs/solo8v2vanilla.py)\<close>

text \<open>
  The environment is glue around collaborators that are not part of the file: the
  pybullet client, \<^verbatim>\<open>pybullet_data\<close>, \<^verbatim>\<open>time.sleep\<close>, gym's \<^verbatim>\<open>spaces.Box\<close> and the
  observation, reward and termination factories. Their effects are modelled as a history:
  the list of calls carried out so far, oldest first. What a call returns, and whether it
  raises, is given by a parameter \<open>X\<close> as a function of the history, so a theorem for every
  \<open>X\<close> holds for every deterministic collaborator. Python floats are only copied and
  negated by this file; they are modelled as \<open>real\<close>.
\<close>

subsection \<open>Values\<close>

type_synonym body = int
type_synonym vec3 = "real \<times> real \<times> real"
type_synonym quat = "real \<times> real \<times> real \<times> real"

datatype connection_mode = GUI | DIRECT
datatype control_mode = VELOCITY_CONTROL | TORQUE_CONTROL
datatype urdf_flag = URDF_USE_INERTIA_FROM_FILE

text \<open>
  \<^verbatim>\<open>spaces.Box(low, high, shape=shape)\<close> with scalar bounds: gym broadcasts both
  bounds over the shape. Only the one-dimensional case \<^verbatim>\<open>shape=(joint_cnt,)\<close> is built here.
\<close>

record box =
  low :: "real list"
  high :: "real list"
  shape :: "nat list"

definition spaces_Box :: "real \<Rightarrow> real \<Rightarrow> nat list \<Rightarrow> box" where
  "spaces_Box lo hi shp =
     \<lparr>low = replicate (prod_list shp) lo, high = replicate (prod_list shp) hi, shape = shp\<rparr>"

text \<open>
  Modelled from the spec: the class \<^verbatim>\<open>Solo8BaseConfig\<close> (gym\_solo/core/configs.py) is
  not among the source files. The fields are those the environment reads, typed as section 3
  of the specification describes them. \<^verbatim>\<open>Solo8VanillaConfig\<close> adds \<^verbatim>\<open>urdf_path\<close>, with
  the default \<^verbatim>\<open>'assets/solo8v2/solo.urdf'\<close>; the environment reads \<^verbatim>\<open>urdf\<close>, the model
  asset path that the base class provides, which is taken here as a field of its own.
\<close>

record Solo8VanillaConfig =
  gravity :: vec3
  dt :: real
  urdf_path :: string
  urdf :: string
  robot_start_pos :: vec3
  robot_start_orientation_euler :: vec3
  motor_torque_limit :: real
  linear_damping :: real
  angular_damping :: real
  restitution :: real
  lateral_friction :: real

subsection \<open>Calls on the collaborators\<close>

datatype call =
    Connect connection_mode
  | SetAdditionalSearchPath string
  | SetGravity real real real
  | SetPhysicsEngineParameter real nat
  | LoadURDF string "vec3 option" "quat option" "urdf_flag option" "bool option"
  | GetQuaternionFromEuler vec3
  | GetNumJoints body
  | SetJointMotorControlArray body "nat list" control_mode "real list"
      "real list option" "real list option"
  | ChangeDynamics body nat real real real real
  | StepSimulation
  | RemoveBody body
  | Sleep real
  | GetObs
  | GetReward
  | IsTerminated
  | GetObservationSpace

datatype error = AttributeError | IndexError | Raised string

text \<open>
  \<open>raises X h c\<close> says whether call \<open>c\<close> raises after history \<open>h\<close>; the other fields give the
  value a successful call returns, from the history that ends with that call.
\<close>

record externals =
  raises :: "call list \<Rightarrow> call \<Rightarrow> error option"
  getDataPath :: string
  quaternion_result :: "call list \<Rightarrow> quat"
  body_result :: "call list \<Rightarrow> body"
  joint_count_result :: "call list \<Rightarrow> nat"
  obs_result :: "call list \<Rightarrow> real list \<times> string list"
  reward_result :: "call list \<Rightarrow> real"
  terminated_result :: "call list \<Rightarrow> bool"
  space_result :: "call list \<Rightarrow> box"

subsection \<open>Statements with effects and exceptions\<close>

type_synonym 'a act = "call list \<Rightarrow> (error + 'a) \<times> call list"

definition ret :: "'a \<Rightarrow> 'a act" where
  "ret x h = (Inr x, h)"

definition raise :: "error \<Rightarrow> 'a act" where
  "raise e h = (Inl e, h)"

definition seq :: "'a act \<Rightarrow> ('a \<Rightarrow> 'b act) \<Rightarrow> 'b act" where
  "seq m f h = (case m h of (Inl e, h') \<Rightarrow> (Inl e, h') | (Inr x, h') \<Rightarrow> f x h')"

text \<open>A call that raises is not carried out: the history keeps the calls that returned.\<close>

definition perform :: "externals \<Rightarrow> call \<Rightarrow> (call list \<Rightarrow> 'a) \<Rightarrow> 'a act" where
  "perform X c result h =
     (case raises X h c of
        Some e \<Rightarrow> (Inl e, h)
      | None \<Rightarrow> (Inr (result (h @ [c])), h @ [c]))"

definition BulletClient :: "externals \<Rightarrow> connection_mode \<Rightarrow> unit act" where
  "BulletClient X mode = perform X (Connect mode) (\<lambda>_. ())"

definition setAdditionalSearchPath :: "externals \<Rightarrow> string \<Rightarrow> unit act" where
  "setAdditionalSearchPath X path = perform X (SetAdditionalSearchPath path) (\<lambda>_. ())"

definition setGravity :: "externals \<Rightarrow> vec3 \<Rightarrow> unit act" where
  "setGravity X g = (case g of (gx, gy, gz) \<Rightarrow> perform X (SetGravity gx gy gz) (\<lambda>_. ()))"

definition setPhysicsEngineParameter :: "externals \<Rightarrow> real \<Rightarrow> nat \<Rightarrow> unit act" where
  "setPhysicsEngineParameter X fixedTimeStep numSubSteps =
     perform X (SetPhysicsEngineParameter fixedTimeStep numSubSteps) (\<lambda>_. ())"

definition loadURDF ::
  "externals \<Rightarrow> string \<Rightarrow> vec3 option \<Rightarrow> quat option \<Rightarrow> urdf_flag option \<Rightarrow> bool option
     \<Rightarrow> body act" where
  "loadURDF X path pos orn flags useFixedBase =
     perform X (LoadURDF path pos orn flags useFixedBase) (body_result X)"

definition getQuaternionFromEuler :: "externals \<Rightarrow> vec3 \<Rightarrow> quat act" where
  "getQuaternionFromEuler X euler =
     perform X (GetQuaternionFromEuler euler) (quaternion_result X)"

definition getNumJoints :: "externals \<Rightarrow> body \<Rightarrow> nat act" where
  "getNumJoints X b = perform X (GetNumJoints b) (joint_count_result X)"

definition setJointMotorControlArray ::
  "externals \<Rightarrow> body \<Rightarrow> nat list \<Rightarrow> control_mode \<Rightarrow> real list \<Rightarrow> real list option
     \<Rightarrow> real list option \<Rightarrow> unit act" where
  "setJointMotorControlArray X b jointIndices mode forces positionGains velocityGains =
     perform X (SetJointMotorControlArray b jointIndices mode forces positionGains velocityGains)
       (\<lambda>_. ())"

definition changeDynamics ::
  "externals \<Rightarrow> body \<Rightarrow> nat \<Rightarrow> real \<Rightarrow> real \<Rightarrow> real \<Rightarrow> real \<Rightarrow> unit act" where
  "changeDynamics X b joint linearDamping angularDamping restit lateralFriction =
     perform X (ChangeDynamics b joint linearDamping angularDamping restit lateralFriction)
       (\<lambda>_. ())"

definition stepSimulation :: "externals \<Rightarrow> unit act" where
  "stepSimulation X = perform X StepSimulation (\<lambda>_. ())"

definition removeBody :: "externals \<Rightarrow> body \<Rightarrow> unit act" where
  "removeBody X b = perform X (RemoveBody b) (\<lambda>_. ())"

definition time_sleep :: "externals \<Rightarrow> real \<Rightarrow> unit act" where
  "time_sleep X secs = perform X (Sleep secs) (\<lambda>_. ())"

definition get_obs :: "externals \<Rightarrow> (real list \<times> string list) act" where
  "get_obs X = perform X GetObs (obs_result X)"

definition get_reward :: "externals \<Rightarrow> real act" where
  "get_reward X = perform X GetReward (reward_result X)"

definition is_terminated :: "externals \<Rightarrow> bool act" where
  "is_terminated X = perform X IsTerminated (terminated_result X)"

definition get_observation_space :: "externals \<Rightarrow> box act" where
  "get_observation_space X = perform X GetObservationSpace (space_result X)"

subsection \<open>The environment object\<close>

record Solo8VanillaEnv =
  realtime :: bool
  config :: "Solo8VanillaConfig option"
  plane :: body
  robot :: body
  zero_gains :: "real list"
  action_space :: box

text \<open>Reading an attribute of \<^verbatim>\<open>self._config\<close>, which is \<^verbatim>\<open>None\<close> by default.\<close>

definition attr :: "Solo8VanillaConfig option \<Rightarrow> (Solo8VanillaConfig \<Rightarrow> 'a) \<Rightarrow> 'a act" where
  "attr cfg field = (case cfg of None \<Rightarrow> raise AttributeError | Some c \<Rightarrow> ret (field c))"

text \<open>\<^verbatim>\<open>self.action_space.shape[0]\<close>: indexing an empty tuple raises.\<close>

definition shape0 :: "box \<Rightarrow> nat act" where
  "shape0 b = (case shape b of [] \<Rightarrow> raise IndexError | n # _ \<Rightarrow> ret n)"

text \<open>The loop \<^verbatim>\<open>for joint in range(joint_cnt)\<close> of \<^verbatim>\<open>_load_robot\<close>.\<close>

fun changeDynamics_loop ::
  "externals \<Rightarrow> Solo8VanillaConfig option \<Rightarrow> body \<Rightarrow> nat list \<Rightarrow> unit act" where
  "changeDynamics_loop X cfg robot_id [] = ret ()"
| "changeDynamics_loop X cfg robot_id (joint # joints) =
     seq (attr cfg linear_damping) (\<lambda>ld.
     seq (attr cfg angular_damping) (\<lambda>ad.
     seq (attr cfg restitution) (\<lambda>re.
     seq (attr cfg lateral_friction) (\<lambda>lf.
     seq (changeDynamics X robot_id joint ld ad re lf) (\<lambda>_.
     changeDynamics_loop X cfg robot_id joints)))))"

definition load_robot :: "externals \<Rightarrow> Solo8VanillaConfig option \<Rightarrow> (body \<times> nat) act" where
  "load_robot X cfg =
     seq (attr cfg urdf) (\<lambda>path.
     seq (attr cfg robot_start_pos) (\<lambda>pos.
     seq (attr cfg robot_start_orientation_euler) (\<lambda>euler.
     seq (getQuaternionFromEuler X euler) (\<lambda>orn.
     seq (loadURDF X path (Some pos) (Some orn) (Some URDF_USE_INERTIA_FROM_FILE) (Some False))
       (\<lambda>robot_id.
     seq (getNumJoints X robot_id) (\<lambda>joint_cnt.
     seq (setJointMotorControlArray X robot_id [0..<joint_cnt] VELOCITY_CONTROL
            (replicate joint_cnt 0) None None) (\<lambda>_.
     seq (changeDynamics_loop X cfg robot_id [0..<joint_cnt]) (\<lambda>_.
     ret (robot_id, joint_cnt)))))))))"

type_synonym step_result = "real list \<times> real \<times> bool \<times> (string \<rightharpoonup> string list)"

definition step :: "externals \<Rightarrow> Solo8VanillaEnv \<Rightarrow> real list \<Rightarrow> step_result act" where
  "step X self action =
     seq (shape0 (action_space self)) (\<lambda>n.
     seq (setJointMotorControlArray X (robot self) [0..<n] TORQUE_CONTROL action
            (Some (zero_gains self)) (Some (zero_gains self))) (\<lambda>_.
     seq (stepSimulation X) (\<lambda>_.
     seq (if realtime self then seq (attr (config self) dt) (time_sleep X) else ret ()) (\<lambda>_.
     seq (get_obs X) (\<lambda>(obs_values, obs_labels).
     seq (get_reward X) (\<lambda>reward.
     seq (is_terminated X) (\<lambda>done.
     ret (obs_values, reward, done, [''labels'' \<mapsto> obs_labels]))))))))"

text \<open>The loop \<^verbatim>\<open>for i in range(1000)\<close> of \<^verbatim>\<open>reset\<close>, by the number of rounds left.\<close>

fun settle :: "externals \<Rightarrow> Solo8VanillaEnv \<Rightarrow> nat \<Rightarrow> unit act" where
  "settle X self 0 = ret ()"
| "settle X self (Suc k) =
     seq (shape0 (action_space self)) (\<lambda>n.
     seq (setJointMotorControlArray X (robot self) [0..<n] TORQUE_CONTROL (zero_gains self)
            (Some (zero_gains self)) (Some (zero_gains self))) (\<lambda>_.
     seq (stepSimulation X) (\<lambda>_.
     settle X self k)))"

text \<open>
  \<^verbatim>\<open>reset\<close> returns a pair on the construction-time call and the observation values
  otherwise. It assigns \<^verbatim>\<open>self.robot\<close>, so the object is returned too, also when a later
  statement raises.
\<close>

datatype reset_result = InitPlaceholder "real list" "string list" | Observation "real list"

definition reset ::
  "externals \<Rightarrow> Solo8VanillaEnv \<Rightarrow> bool \<Rightarrow> call list
     \<Rightarrow> (error + reset_result) \<times> Solo8VanillaEnv \<times> call list" where
  "reset X self init_call h =
     (case removeBody X (robot self) h of
        (Inl e, h1) \<Rightarrow> (Inl e, self, h1)
      | (Inr _, h1) \<Rightarrow>
          (case load_robot X (config self) h1 of
             (Inl e, h2) \<Rightarrow> (Inl e, self, h2)
           | (Inr (robot_id, _), h2) \<Rightarrow>
               (let self' = self\<lparr>robot := robot_id\<rparr>
                in case seq (settle X self' 1000) (\<lambda>_.
                          if init_call then ret (InitPlaceholder [] [])
                          else seq (get_obs X) (\<lambda>(obs_values, _). ret (Observation obs_values))) h2
                   of (r, h3) \<Rightarrow> (r, self', h3))))"

definition observation_space :: "externals \<Rightarrow> Solo8VanillaEnv \<Rightarrow> box act" where
  "observation_space X self = get_observation_space X"

text \<open>
  \<^verbatim>\<open>__init__\<close>. Building the three factory objects has no effect on the history; their
  later answers are part of \<open>X\<close>.
\<close>

definition init ::
  "externals \<Rightarrow> bool \<Rightarrow> bool \<Rightarrow> Solo8VanillaConfig option \<Rightarrow> Solo8VanillaEnv act" where
  "init X use_gui rt cfg =
     seq (BulletClient X (if use_gui then GUI else DIRECT)) (\<lambda>_.
     seq (setAdditionalSearchPath X (getDataPath X)) (\<lambda>_.
     seq (attr cfg gravity) (\<lambda>g.
     seq (setGravity X g) (\<lambda>_.
     seq (attr cfg dt) (\<lambda>fixedTimeStep.
     seq (setPhysicsEngineParameter X fixedTimeStep 1) (\<lambda>_.
     seq (loadURDF X ''plane.urdf'' None None None None) (\<lambda>plane_id.
     seq (load_robot X cfg) (\<lambda>(robot_id, joint_cnt).
     seq (attr cfg motor_torque_limit) (\<lambda>limit.
     (\<lambda>h. case reset X
                  \<lparr>realtime = rt, config = cfg, plane = plane_id, robot = robot_id,
                   zero_gains = replicate joint_cnt 0,
                   action_space = spaces_Box (- limit) limit [joint_cnt]\<rparr> True h of
             (Inl e, _, h') \<Rightarrow> (Inl e, h')
           | (Inr _, self, h') \<Rightarrow> (Inr self, h')))))))))))"

section \<open>Example collaborators and an example environment\<close>

text \<open>
  Collaborators that never raise. Body ids grow with the history, every robot has two
  joints, and the one observation is the number of simulation steps carried out so far.
\<close>

definition accepting :: externals where
  "accepting =
     \<lparr>raises = (\<lambda>_ _. None),
      getDataPath = ''pybullet_data'',
      quaternion_result = (\<lambda>_. (0, 0, 0, 1)),
      body_result = (\<lambda>h. int (length h)),
      joint_count_result = (\<lambda>_. 2),
      obs_result = (\<lambda>h. ([real (count_list h StepSimulation)], [''ticks''])),
      reward_result = (\<lambda>_. 0),
      terminated_result = (\<lambda>_. False),
      space_result = (\<lambda>_. spaces_Box 0 1 [1])\<rparr>"



text \<open>
  The same collaborators with an observation factory whose declared space widens with
  every call made.
\<close>

definition widening :: externals where
  "widening = accepting\<lparr>space_result := (\<lambda>h. spaces_Box 0 1 [length h])\<rparr>"

definition example_config :: Solo8VanillaConfig where
  "example_config =
     \<lparr>gravity = (0, 0, - 981 / 100), dt = 1 / 240, urdf_path = ''assets/solo8v2/solo.urdf'',
      urdf = ''gym_solo/assets/solo8v2/solo.urdf'',
      robot_start_pos = (0, 0, 1), robot_start_orientation_euler = (0, 0, 0),
      motor_torque_limit = 5, linear_damping = 4 / 100, angular_damping = 4 / 100,
      restitution = 0, lateral_friction = 1 / 2\<rparr>"

text \<open>An environment as construction leaves it for two joints and the example configuration.\<close>

definition example_env :: Solo8VanillaEnv where
  "example_env =
     \<lparr>realtime = False, config = Some example_config, plane = 0, robot = 1,
      zero_gains = replicate 2 0, action_space = spaces_Box (- 5) 5 [2]\<rparr>"

section \<open>Basic facts\<close>

lemma seq_Inr:
  "seq m f h = (Inr y, h'') \<longleftrightarrow> (\<exists>x h'. m h = (Inr x, h') \<and> f x h' = (Inr y, h''))"
  by (auto simp: seq_def split: prod.splits sum.splits)

lemma perform_Inr:
  "perform X c r h = (Inr x, h') \<longleftrightarrow> raises X h c = None \<and> x = r (h @ [c]) \<and> h' = h @ [c]"
  by (auto simp: perform_def split: option.splits)

lemma ret_eq: "ret x h = (r, h') \<longleftrightarrow> r = Inr x \<and> h' = h"
  by (auto simp: ret_def)

lemma attr_Inr: "attr cfg f h = (Inr x, h') \<longleftrightarrow> (\<exists>c. cfg = Some c \<and> x = f c \<and> h' = h)"
  by (auto simp: attr_def ret_def raise_def split: option.splits)

lemma shape0_Inr: "shape0 b h = (Inr n, h') \<longleftrightarrow> (\<exists>ns. shape b = n # ns \<and> h' = h)"
  by (auto simp: shape0_def ret_def raise_def split: list.splits)

lemmas client_defs = BulletClient_def setAdditionalSearchPath_def setGravity_def
  setPhysicsEngineParameter_def loadURDF_def getQuaternionFromEuler_def getNumJoints_def
  setJointMotorControlArray_def changeDynamics_def stepSimulation_def removeBody_def
  time_sleep_def get_obs_def get_reward_def is_terminated_def get_observation_space_def

lemmas example_defs = accepting_def example_config_def example_env_def spaces_Box_def

lemma perform_accept:
  "raises X h c = None \<Longrightarrow> perform X c r h = (Inr (r (h @ [c])), h @ [c])"
  by (simp add: perform_def)

lemma seq_step: "m h = (Inr x, h') \<Longrightarrow> seq m f h = f x h'"
  by (simp add: seq_def)

lemma attr_Some: "attr (Some c) f h = (Inr (f c), h)"
  by (simp add: attr_def ret_def)


subsection \<open>Every statement only appends to the history\<close>

lemma prefix_perform: "prefix h (snd (perform X c r h))"
  by (simp add: perform_def split: option.splits)

lemma prefix_ret: "prefix h (snd (ret x h))"
  by (simp add: ret_def)

lemma prefix_raise: "prefix h (snd (raise e h))"
  by (simp add: raise_def)

lemma prefix_attr: "prefix h (snd (attr cfg f h))"
  by (simp add: attr_def prefix_ret prefix_raise split: option.splits)

lemma prefix_shape0: "prefix h (snd (shape0 b h))"
  by (simp add: shape0_def prefix_ret prefix_raise split: list.splits)

lemma prefix_seq:
  assumes "\<And>h. prefix h (snd (m h))" and "\<And>x h. prefix h (snd (f x h))"
  shows "prefix h (snd (seq m f h))"
proof (cases "m h")
  case (Pair r h1)
  have 1: "prefix h h1" using assms(1) [of h] Pair by simp
  show ?thesis
  proof (cases r)
    case (Inl e)
    with Pair 1 show ?thesis by (simp add: seq_def)
  next
    case (Inr x)
    have "prefix h1 (snd (f x h1))" by (rule assms(2))
    with 1 have "prefix h (snd (f x h1))" by (rule prefix_order.trans)
    with Pair Inr show ?thesis by (simp add: seq_def)
  qed
qed


section \<open>Step\<close>




lemma step_calls_in_order:
  assumes "step X self action h = (res, h')"
  shows "\<exists>cs n d. h' = h @ cs \<and>
     prefix cs ([SetJointMotorControlArray (robot self) [0..<n] TORQUE_CONTROL action
                   (Some (zero_gains self)) (Some (zero_gains self)), StepSimulation]
                @ (if realtime self then [Sleep d] else [])
                @ [GetObs, GetReward, IsTerminated])"
proof (cases "shape (action_space self)")
  case Nil
  with assms have "h' = h"
    by (simp add: step_def seq_def shape0_def raise_def)
  then show ?thesis by simp
next
  case (Cons n ns)
  show ?thesis
  proof (cases "realtime self")
    case False
    with assms Cons have "\<exists>cs. h' = h @ cs \<and>
     prefix cs ([SetJointMotorControlArray (robot self) [0..<n] TORQUE_CONTROL action
                   (Some (zero_gains self)) (Some (zero_gains self)), StepSimulation]
                @ [GetObs, GetReward, IsTerminated])"
      by (auto simp: step_def seq_def shape0_def ret_def client_defs perform_def case_prod_beta
          split: option.splits)
    with False show ?thesis by auto
  next
    case True
    show ?thesis
    proof (cases "config self")
      case None
      with assms Cons True have "\<exists>cs. h' = h @ cs \<and>
        prefix cs [SetJointMotorControlArray (robot self) [0..<n] TORQUE_CONTROL action
                   (Some (zero_gains self)) (Some (zero_gains self)), StepSimulation]"
        by (auto simp: step_def seq_def shape0_def ret_def raise_def attr_def client_defs
            perform_def case_prod_beta split: option.splits)
      then obtain cs where "h' = h @ cs" "prefix cs ([SetJointMotorControlArray (robot self) [0..<n] TORQUE_CONTROL action
                   (Some (zero_gains self)) (Some (zero_gains self)), StepSimulation] @
                 ([Sleep 0] @ [GetObs, GetReward, IsTerminated]))"
        by (metis prefix_prefix)
      with True show ?thesis
        by (intro exI [of _ cs] exI [of _ n] exI [of _ 0]) simp
    next
      case (Some c)
      with assms Cons True have "\<exists>cs. h' = h @ cs \<and>
     prefix cs ([SetJointMotorControlArray (robot self) [0..<n] TORQUE_CONTROL action
                   (Some (zero_gains self)) (Some (zero_gains self)), StepSimulation]
                @ [Sleep (dt c)] @ [GetObs, GetReward, IsTerminated])"
        by (auto simp: step_def seq_def shape0_def ret_def attr_def client_defs perform_def
            case_prod_beta split: option.splits)
      with True show ?thesis by auto
    qed
  qed
qed

lemma step_returns:
  assumes "step X self action h = (Inr (obs_values, reward, done, info), h')"
  shows "\<exists>n ns naps.
     shape (action_space self) = n # ns \<and>
     (if realtime self then \<exists>c. config self = Some c \<and> naps = [Sleep (dt c)] else naps = []) \<and>
     (let h1 = h @ [SetJointMotorControlArray (robot self) [0..<n] TORQUE_CONTROL action
                      (Some (zero_gains self)) (Some (zero_gains self)), StepSimulation] @ naps
      in h' = h1 @ [GetObs, GetReward, IsTerminated] \<and>
         obs_values = fst (obs_result X (h1 @ [GetObs])) \<and>
         reward = reward_result X (h1 @ [GetObs, GetReward]) \<and>
         done = terminated_result X (h1 @ [GetObs, GetReward, IsTerminated]) \<and>
         info = [''labels'' \<mapsto> snd (obs_result X (h1 @ [GetObs]))]) \<and>
     count_list (drop (length h) h') StepSimulation = 1"
proof (cases "realtime self")
  case True
  with assms show ?thesis
    by (auto simp: step_def seq_Inr shape0_Inr client_defs perform_Inr ret_eq attr_Inr
        case_prod_beta)
next
  case False
  with assms show ?thesis
    by (auto simp: step_def seq_Inr shape0_Inr client_defs perform_Inr ret_eq attr_Inr
        case_prod_beta)
qed

text \<open>
  C5: in every \<^verbatim>\<open>step\<close>, however it ends, the calls made are an initial part of this
  sequence: the torque command, one simulation step, the optional sleep, and then the reads
  of the observation, reward and termination factories. So no factory is read before the
  torque command and the simulation step were carried out. When \<^verbatim>\<open>step\<close> returns, all
  of them were made, exactly one simulation step among them, each factory answered from a
  history that already holds the torque command and the simulation step, and the result is
  the observation values, the reward, the termination flag and a mapping with the observation
  labels under the key \<open>labels\<close>.
\<close>

theorem step_factories_read_post_step_state:
  assumes "step X self action h = (res, h')"
  shows "(\<exists>cs n d. h' = h @ cs \<and>
            prefix cs ([SetJointMotorControlArray (robot self) [0..<n] TORQUE_CONTROL action
                          (Some (zero_gains self)) (Some (zero_gains self)), StepSimulation]
                       @ (if realtime self then [Sleep d] else [])
                       @ [GetObs, GetReward, IsTerminated])) \<and>
         (\<forall>obs_values reward done info.
            res = Inr (obs_values, reward, done, info) \<longrightarrow>
            (\<exists>n ns naps.
               shape (action_space self) = n # ns \<and>
               (if realtime self then \<exists>c. config self = Some c \<and> naps = [Sleep (dt c)]
                else naps = []) \<and>
               (let h1 = h @ [SetJointMotorControlArray (robot self) [0..<n] TORQUE_CONTROL action
                                (Some (zero_gains self)) (Some (zero_gains self)), StepSimulation]
                           @ naps
                in h' = h1 @ [GetObs, GetReward, IsTerminated] \<and>
                   obs_values = fst (obs_result X (h1 @ [GetObs])) \<and>
                   reward = reward_result X (h1 @ [GetObs, GetReward]) \<and>
                   done = terminated_result X (h1 @ [GetObs, GetReward, IsTerminated]) \<and>
                   info = [''labels'' \<mapsto> snd (obs_result X (h1 @ [GetObs]))]) \<and>
               count_list (drop (length h) h') StepSimulation = 1))"
proof (intro conjI allI impI)
  show "\<exists>cs n d. h' = h @ cs \<and>
            prefix cs ([SetJointMotorControlArray (robot self) [0..<n] TORQUE_CONTROL action
                          (Some (zero_gains self)) (Some (zero_gains self)), StepSimulation]
                       @ (if realtime self then [Sleep d] else [])
                       @ [GetObs, GetReward, IsTerminated])"
    by (rule step_calls_in_order [OF assms])
next
  fix obs_values reward terminated info
  assume "res = Inr (obs_values, reward, terminated, info)"
  with assms have "step X self action h = (Inr (obs_values, reward, terminated, info), h')"
    by simp
  then show "\<exists>n ns naps.
               shape (action_space self) = n # ns \<and>
               (if realtime self then \<exists>c. config self = Some c \<and> naps = [Sleep (dt c)]
                else naps = []) \<and>
               (let h1 = h @ [SetJointMotorControlArray (robot self) [0..<n] TORQUE_CONTROL action
                                (Some (zero_gains self)) (Some (zero_gains self)), StepSimulation]
                           @ naps
                in h' = h1 @ [GetObs, GetReward, IsTerminated] \<and>
                   obs_values = fst (obs_result X (h1 @ [GetObs])) \<and>
                   reward = reward_result X (h1 @ [GetObs, GetReward]) \<and>
                   terminated = terminated_result X (h1 @ [GetObs, GetReward, IsTerminated]) \<and>
                   info = [''labels'' \<mapsto> snd (obs_result X (h1 @ [GetObs]))]) \<and>
               count_list (drop (length h) h') StepSimulation = 1"
    by (rule step_returns)
qed

text \<open>
  The scenario of the specification: two actuators, torque limit 5, one step with
  \<open>[5, -5]\<close>. The observation, the count of simulation steps so far, is 1.
\<close>

theorem step_factories_read_post_step_state_witness:
  "step accepting example_env [5, - 5] [] =
     (Inr ([1], 0, False, [''labels'' \<mapsto> [''ticks'']]),
      [SetJointMotorControlArray 1 [0..<2] TORQUE_CONTROL [5, - 5] (Some [0, 0]) (Some [0, 0]),
       StepSimulation, GetObs, GetReward, IsTerminated]) \<and>
   count_list (drop (length ([] :: call list))
      [SetJointMotorControlArray 1 [0..<2] TORQUE_CONTROL [5, - 5] (Some [0, 0]) (Some [0, 0]),
       StepSimulation, GetObs, GetReward, IsTerminated]) StepSimulation = 1"
proof -
  have run: "step accepting example_env [5, - 5] [] =
     (Inr ([1], 0, False, [''labels'' \<mapsto> [''ticks'']]),
      [SetJointMotorControlArray 1 [0..<2] TORQUE_CONTROL [5, - 5] (Some [0, 0]) (Some [0, 0]),
       StepSimulation, GetObs, GetReward, IsTerminated])"
    by (simp add: example_defs step_def seq_def shape0_def ret_def client_defs perform_def
        numeral_2_eq_2)
  from step_factories_read_post_step_state [OF run] run show ?thesis
    by blast
qed



section \<open>Loading the robot\<close>


lemma changeDynamics_loop_accept:
  assumes "\<And>h c. raises X h c = None"
  shows "changeDynamics_loop X (Some c) robot_id joints h =
     (Inr (), h @ map (\<lambda>joint. ChangeDynamics robot_id joint (linear_damping c)
                   (angular_damping c) (restitution c) (lateral_friction c)) joints)"
proof (induction joints arbitrary: h)
  case Nil
  then show ?case by (simp add: ret_def)
next
  case (Cons joint joints)
  show ?case
    by (simp add: seq_def attr_def ret_def changeDynamics_def perform_def assms Cons.IH)
qed



lemma load_robot_accept:
  assumes "\<And>h c. raises X h c = None"
  shows "load_robot X (Some c) h =
     (let h1 = h @ [GetQuaternionFromEuler (robot_start_orientation_euler c)];
          h2 = h1 @ [LoadURDF (urdf c) (Some (robot_start_pos c)) (Some (quaternion_result X h1))
                       (Some URDF_USE_INERTIA_FROM_FILE) (Some False)];
          robot_id = body_result X h2;
          h3 = h2 @ [GetNumJoints robot_id];
          joint_cnt = joint_count_result X h3
      in (Inr (robot_id, joint_cnt),
          h3 @ [SetJointMotorControlArray robot_id [0..<joint_cnt] VELOCITY_CONTROL
                      (replicate joint_cnt 0) None None]
             @ map (\<lambda>joint. ChangeDynamics robot_id joint (linear_damping c)
                          (angular_damping c) (restitution c) (lateral_friction c))
                     [0..<joint_cnt]))"
  by (simp add: load_robot_def seq_def attr_def ret_def client_defs perform_def assms
      changeDynamics_loop_accept [OF assms] Let_def)

lemma prefix_changeDynamics_loop:
  "prefix h (snd (changeDynamics_loop X cfg robot_id joints h))"
proof (induction joints arbitrary: h)
  case Nil
  show ?case by (simp add: prefix_ret)
next
  case (Cons joint joints)
  show ?case
    unfolding changeDynamics_loop.simps
    by (intro prefix_seq prefix_attr Cons.IH) (simp add: changeDynamics_def prefix_perform)
qed

lemma prefix_load_robot: "prefix h (snd (load_robot X cfg h))"
  unfolding load_robot_def
  by (intro prefix_seq prefix_attr prefix_ret prefix_changeDynamics_loop)
     (simp_all add: client_defs prefix_perform)

lemma accepting_never_raises: "raises accepting h c = None"
  by (simp add: accepting_def)




section \<open>Reset\<close>



lemma settle_accept:
  assumes "\<And>h c. raises X h c = None" and "shape (action_space self) = n # ns"
  shows "settle X self k h =
     (Inr (), h @ concat (replicate k
          [SetJointMotorControlArray (robot self) [0..<n] TORQUE_CONTROL (zero_gains self)
             (Some (zero_gains self)) (Some (zero_gains self)), StepSimulation]))"
proof (induction k arbitrary: h)
  case 0
  then show ?case by (simp add: ret_def)
next
  case (Suc k)
  show ?case
    by (simp add: seq_def shape0_def ret_def client_defs perform_def assms Suc.IH)
qed


lemma prefix_settle: "prefix h (snd (settle X self k h))"
proof (induction k arbitrary: h)
  case 0
  show ?case by (simp add: prefix_ret)
next
  case (Suc k)
  show ?case
    unfolding settle.simps
    by (intro prefix_seq prefix_shape0 Suc.IH) (simp_all add: client_defs prefix_perform)
qed


lemma reset_accept:
  assumes "\<And>h c. raises X h c = None"
    and "config self = Some c" and "shape (action_space self) = n # ns"
  shows "reset X self init_call h =
     (let h1 = h @ [RemoveBody (robot self),
                    GetQuaternionFromEuler (robot_start_orientation_euler c)];
          h2 = h1 @ [LoadURDF (urdf c) (Some (robot_start_pos c)) (Some (quaternion_result X h1))
                       (Some URDF_USE_INERTIA_FROM_FILE) (Some False)];
          robot_id = body_result X h2;
          h3 = h2 @ [GetNumJoints robot_id];
          joint_cnt = joint_count_result X h3;
          loaded = h3 @ [SetJointMotorControlArray robot_id [0..<joint_cnt] VELOCITY_CONTROL
                           (replicate joint_cnt 0) None None]
                      @ map (\<lambda>joint. ChangeDynamics robot_id joint (linear_damping c)
                               (angular_damping c) (restitution c) (lateral_friction c))
                          [0..<joint_cnt];
          settled = loaded @ concat (replicate 1000
                      [SetJointMotorControlArray robot_id [0..<n] TORQUE_CONTROL (zero_gains self)
                         (Some (zero_gains self)) (Some (zero_gains self)), StepSimulation])
      in (if init_call then Inr (InitPlaceholder [] [])
          else Inr (Observation (fst (obs_result X (settled @ [GetObs])))),
          self\<lparr>robot := robot_id\<rparr>,
          settled @ (if init_call then [] else [GetObs])))"
proof -
  have sh: "\<And>b. shape (action_space (self\<lparr>robot := b\<rparr>)) = n # ns"
    using assms(3) by simp
  show ?thesis
    by (simp add: reset_def removeBody_def perform_def assms(1,2) load_robot_accept [OF assms(1)]
        Let_def seq_def settle_accept [OF assms(1) sh] ret_def get_obs_def case_prod_beta)
qed

lemma reset_accept_the:
  assumes "\<And>h c. raises X h c = None"
    and "config self \<noteq> None" and "shape (action_space self) \<noteq> []"
  shows "reset X self init_call h =
     (let c = the (config self); n = hd (shape (action_space self));
          h1 = h @ [RemoveBody (robot self),
                    GetQuaternionFromEuler (robot_start_orientation_euler c)];
          h2 = h1 @ [LoadURDF (urdf c) (Some (robot_start_pos c)) (Some (quaternion_result X h1))
                       (Some URDF_USE_INERTIA_FROM_FILE) (Some False)];
          robot_id = body_result X h2;
          h3 = h2 @ [GetNumJoints robot_id];
          joint_cnt = joint_count_result X h3;
          loaded = h3 @ [SetJointMotorControlArray robot_id [0..<joint_cnt] VELOCITY_CONTROL
                           (replicate joint_cnt 0) None None]
                      @ map (\<lambda>joint. ChangeDynamics robot_id joint (linear_damping c)
                               (angular_damping c) (restitution c) (lateral_friction c))
                          [0..<joint_cnt];
          settled = loaded @ concat (replicate 1000
                      [SetJointMotorControlArray robot_id [0..<n] TORQUE_CONTROL (zero_gains self)
                         (Some (zero_gains self)) (Some (zero_gains self)), StepSimulation])
      in (if init_call then Inr (InitPlaceholder [] [])
          else Inr (Observation (fst (obs_result X (settled @ [GetObs])))),
          self\<lparr>robot := robot_id\<rparr>,
          settled @ (if init_call then [] else [GetObs])))"
proof -
  from assms(2) obtain c where c: "config self = Some c" by auto
  from assms(3) obtain n ns where n: "shape (action_space self) = n # ns"
    by (cases "shape (action_space self)") auto
  show ?thesis
    unfolding reset_accept [OF assms(1) c n] by (simp add: c n)
qed


lemma prefix_reset: "prefix h (snd (snd (reset X self init_call h)))"
proof -
  have 1: "prefix h (snd (removeBody X (robot self) h))"
    by (simp add: removeBody_def prefix_perform)
  have 3: "\<And>s h2. prefix h2 (snd (seq (settle X s 1000) (\<lambda>_.
                          if init_call then ret (InitPlaceholder [] [])
                          else seq (get_obs X) (\<lambda>(obs_values, _). ret (Observation obs_values)))
                        h2))"
    by (intro prefix_seq prefix_settle)
       (simp add: prefix_ret prefix_seq get_obs_def prefix_perform case_prod_beta)
  obtain r1 h1 where a: "removeBody X (robot self) h = (r1, h1)"
    by (cases "removeBody X (robot self) h")
  with 1 have p1: "prefix h h1" by simp
  show ?thesis
  proof (cases r1)
    case (Inl e)
    with a p1 show ?thesis by (simp add: reset_def)
  next
    case (Inr u)
    obtain r2 h2 where b: "load_robot X (config self) h1 = (r2, h2)"
      by (cases "load_robot X (config self) h1")
    with prefix_load_robot [of h1 X "config self"] p1 have p2: "prefix h h2"
      by (auto intro: prefix_order.trans)
    show ?thesis
    proof (cases r2)
      case (Inl e)
      with a b Inr p2 show ?thesis by (simp add: reset_def)
    next
      case (Inr rn)
      obtain robot_id joint_cnt where rn: "rn = (robot_id, joint_cnt)" by (cases rn)
      obtain r3 h3 where c: "seq (settle X (self\<lparr>robot := robot_id\<rparr>) 1000) (\<lambda>_.
                          if init_call then ret (InitPlaceholder [] [])
                          else seq (get_obs X) (\<lambda>(obs_values, _). ret (Observation obs_values)))
                        h2 = (r3, h3)"
        by (cases "seq (settle X (self\<lparr>robot := robot_id\<rparr>) 1000) (\<lambda>_.
                          if init_call then ret (InitPlaceholder [] [])
                          else seq (get_obs X) (\<lambda>(obs_values, _). ret (Observation obs_values)))
                        h2")
      from 3 [where s = "self\<lparr>robot := robot_id\<rparr>" and ?h2.0 = h2] c
      have "prefix h2 h3" by simp
      with p2 have "prefix h h3" by (rule prefix_order.trans)
      moreover have "reset X self init_call h = (r3, self\<lparr>robot := robot_id\<rparr>, h3)"
        using a b \<open>r1 = Inr u\<close> Inr rn c by (simp add: reset_def Let_def)
      ultimately show ?thesis by simp
    qed
  qed
qed






section \<open>Construction\<close>


lemma init_accept:
  assumes "\<And>h c. raises X h c = None" and "gravity c = (gx, gy, gz)"
  shows "init X use_gui rt (Some c) h =
     (let h0 = h @ [Connect (if use_gui then GUI else DIRECT),
                    SetAdditionalSearchPath (getDataPath X),
                    SetGravity gx gy gz,
                    SetPhysicsEngineParameter (dt c) 1,
                    LoadURDF ''plane.urdf'' None None None None];
          plane_id = body_result X h0;
          (l, hl) = load_robot X (Some c) h0;
          (robot_id, joint_cnt) = projr l;
          (r, self, h') = reset X
             \<lparr>realtime = rt, config = Some c, plane = plane_id, robot = robot_id,
              zero_gains = replicate joint_cnt 0,
              action_space = spaces_Box (- motor_torque_limit c) (motor_torque_limit c)
                               [joint_cnt]\<rparr> True hl
      in (Inr self, h'))"
  by (simp add: init_def seq_def attr_def ret_def client_defs perform_def assms
      load_robot_accept [OF assms(1)] reset_accept_the [OF assms(1)] spaces_Box_def Let_def)

lemma prefix_init_tail:
  "prefix h (snd (seq (attr cfg dt) (\<lambda>fixedTimeStep.
     seq (setPhysicsEngineParameter X fixedTimeStep 1) (\<lambda>_.
     seq (loadURDF X ''plane.urdf'' None None None None) (\<lambda>plane_id.
     seq (load_robot X cfg) (\<lambda>(robot_id, joint_cnt).
     seq (attr cfg motor_torque_limit) (\<lambda>limit.
     (\<lambda>h. case reset X
                  \<lparr>realtime = rt, config = cfg, plane = plane_id, robot = robot_id,
                   zero_gains = replicate joint_cnt 0,
                   action_space = spaces_Box (- limit) limit [joint_cnt]\<rparr> True h of
             (Inl e, _, h') \<Rightarrow> (Inl e, h')
           | (Inr _, self, h') \<Rightarrow> (Inr self, h'))))))) h))"
  unfolding case_prod_beta
  by (intro prefix_seq prefix_attr prefix_load_robot)
     (simp_all add: client_defs prefix_perform prefix_reset split: sum.splits)



text \<open>
  C9: without a configuration, \<^verbatim>\<open>__init__\<close> always ends with an error, having made at
  most the connection and the search-path call: gravity and time step are never set. When
  the client accepts those two calls the error is the attribute error of reading
  \<^verbatim>\<open>gravity\<close> from \<^verbatim>\<open>None\<close>. With a configuration, construction goes past that
  point: after the same two calls the client is asked to set the configured gravity, and an
  error there is the client's own; with collaborators that raise nothing construction returns
  an environment.
\<close>

theorem init_without_config_raises:
  assumes "mode = (if use_gui then GUI else DIRECT)"
  shows "(\<exists>e cs. init X use_gui rt None h = (Inl e, h @ cs) \<and>
            prefix cs [Connect mode, SetAdditionalSearchPath (getDataPath X)] \<and>
            (raises X h (Connect mode) = None \<and>
             raises X (h @ [Connect mode]) (SetAdditionalSearchPath (getDataPath X)) = None \<longrightarrow>
             e = AttributeError \<and>
             cs = [Connect mode, SetAdditionalSearchPath (getDataPath X)])) \<and>
         (raises X h (Connect mode) = None \<and>
          raises X (h @ [Connect mode]) (SetAdditionalSearchPath (getDataPath X)) = None \<and>
          gravity c = (gx, gy, gz) \<longrightarrow>
            (case raises X (h @ [Connect mode, SetAdditionalSearchPath (getDataPath X)])
                    (SetGravity gx gy gz) of
               Some e \<Rightarrow> init X use_gui rt (Some c) h =
                  (Inl e, h @ [Connect mode, SetAdditionalSearchPath (getDataPath X)])
             | None \<Rightarrow> prefix (h @ [Connect mode, SetAdditionalSearchPath (getDataPath X),
                                    SetGravity gx gy gz])
                          (snd (init X use_gui rt (Some c) h)))) \<and>
         ((\<forall>h c. raises X h c = None) \<longrightarrow>
            (\<exists>self h'. init X use_gui rt (Some c) h = (Inr self, h')))"
proof (intro conjI impI)
  show "\<exists>e cs. init X use_gui rt None h = (Inl e, h @ cs) \<and>
            prefix cs [Connect mode, SetAdditionalSearchPath (getDataPath X)] \<and>
            (raises X h (Connect mode) = None \<and>
             raises X (h @ [Connect mode]) (SetAdditionalSearchPath (getDataPath X)) = None \<longrightarrow>
             e = AttributeError \<and>
             cs = [Connect mode, SetAdditionalSearchPath (getDataPath X)])"
    unfolding assms
    by (cases "raises X h (Connect (if use_gui then GUI else DIRECT))";
        cases "raises X (h @ [Connect (if use_gui then GUI else DIRECT)])
                 (SetAdditionalSearchPath (getDataPath X))")
       (simp_all add: init_def seq_def BulletClient_def setAdditionalSearchPath_def perform_def
          attr_def raise_def)
next
  assume a: "raises X h (Connect mode) = None \<and>
          raises X (h @ [Connect mode]) (SetAdditionalSearchPath (getDataPath X)) = None \<and>
          gravity c = (gx, gy, gz)"
  let ?h2 = "h @ [Connect mode, SetAdditionalSearchPath (getDataPath X)]"
  let ?g = "SetGravity gx gy gz"
  let ?tail = "seq (attr (Some c) dt) (\<lambda>fixedTimeStep.
     seq (setPhysicsEngineParameter X fixedTimeStep 1) (\<lambda>_.
     seq (loadURDF X ''plane.urdf'' None None None None) (\<lambda>plane_id.
     seq (load_robot X (Some c)) (\<lambda>(robot_id, joint_cnt).
     seq (attr (Some c) motor_torque_limit) (\<lambda>limit.
     (\<lambda>h. case reset X
                  \<lparr>realtime = rt, config = Some c, plane = plane_id, robot = robot_id,
                   zero_gains = replicate joint_cnt 0,
                   action_space = spaces_Box (- limit) limit [joint_cnt]\<rparr> True h of
             (Inl e, _, h') \<Rightarrow> (Inl e, h')
           | (Inr _, self, h') \<Rightarrow> (Inr self, h')))))))"
  show "case raises X ?h2 ?g of
               Some e \<Rightarrow> init X use_gui rt (Some c) h = (Inl e, ?h2)
             | None \<Rightarrow> prefix (h @ [Connect mode, SetAdditionalSearchPath (getDataPath X),
                                    SetGravity gx gy gz])
                          (snd (init X use_gui rt (Some c) h))"
  proof (cases "raises X ?h2 ?g")
    case (Some e)
    with a show ?thesis
      unfolding assms
      by (simp add: init_def seq_def BulletClient_def setAdditionalSearchPath_def perform_def
          attr_def ret_def setGravity_def)
  next
    case None
    have 1: "BulletClient X mode h = (Inr (), h @ [Connect mode])"
      using a by (simp add: BulletClient_def perform_def)
    have 2: "setAdditionalSearchPath X (getDataPath X) (h @ [Connect mode]) = (Inr (), ?h2)"
      using a by (simp add: setAdditionalSearchPath_def perform_def)
    have 3: "attr (Some c) gravity ?h2 = (Inr (gx, gy, gz), ?h2)"
      using a by (simp add: attr_def ret_def)
    have 4: "setGravity X (gx, gy, gz) ?h2 = (Inr (), ?h2 @ [?g])"
      using None by (simp add: setGravity_def perform_def)
    have "init X use_gui rt (Some c) h = ?tail (?h2 @ [?g])"
      unfolding init_def assms [symmetric]
      by (simp only: seq_step [where m = "BulletClient X mode", OF 1]
          seq_step [where m = "setAdditionalSearchPath X (getDataPath X)", OF 2]
          seq_step [where m = "attr (Some c) gravity", OF 3]
          seq_step [where m = "setGravity X (gx, gy, gz)", OF 4])
    moreover have "prefix (?h2 @ [?g]) (snd (?tail (?h2 @ [?g])))"
      by (rule prefix_init_tail)
    ultimately show ?thesis using None by simp
  qed
next
  assume a: "\<forall>h c. raises X h c = None"
  then have a': "\<And>h c. raises X h c = None" by simp
  obtain gx' gy' gz' where g: "gravity c = (gx', gy', gz')"
    by (cases "gravity c") auto
  show "\<exists>self h'. init X use_gui rt (Some c) h = (Inr self, h')"
    unfolding init_accept [OF a' g]
    by (simp add: Let_def split: prod.splits)
qed

text \<open>Construction without and with the example configuration.\<close>

theorem init_without_config_raises_witness:
  "init accepting False False None [] =
     (Inl AttributeError, [Connect DIRECT, SetAdditionalSearchPath ''pybullet_data'']) \<and>
   prefix [Connect DIRECT, SetAdditionalSearchPath ''pybullet_data'',
           SetGravity 0 0 (- 981 / 100)]
     (snd (init accepting False False (Some example_config) [])) \<and>
   (\<exists>self h'. init accepting False False (Some example_config) [] = (Inr self, h'))"
proof -
  have m: "DIRECT = (if False then GUI else DIRECT)" by simp
  have g: "gravity example_config = (0, 0, - 981 / 100)"
    by (simp add: example_config_def)
  have p: "getDataPath accepting = ''pybullet_data''"
    by (simp add: accepting_def)
  note t = init_without_config_raises [OF m, where X = accepting and rt = False and h = "[]"
      and c = example_config and gx = 0 and gy = 0 and gz = "- 981 / 100"]
  from t show ?thesis
    by (auto simp: accepting_never_raises g p)
qed

section \<open>The joint count across loads\<close>




section \<open>The observation space\<close>

text \<open>
  C10: \<^verbatim>\<open>observation_space\<close> is the factory's \<^verbatim>\<open>get_observation_space\<close> at the
  moment of the access: it does not depend on the environment object, which keeps no copy,
  and two accesses give equal results exactly when the factory does.
\<close>

theorem observation_space_delegates_to_factory:
  "observation_space X self h = get_observation_space X h \<and>
   observation_space X self h = observation_space X self' h \<and>
   observation_space X self h =
     (case raises X h GetObservationSpace of
        Some e \<Rightarrow> (Inl e, h)
      | None \<Rightarrow> (Inr (space_result X (h @ [GetObservationSpace])), h @ [GetObservationSpace])) \<and>
   (fst (observation_space X self h1) = fst (observation_space X self' h2)) =
     (fst (get_observation_space X h1) = fst (get_observation_space X h2))"
  by (simp add: observation_space_def get_observation_space_def perform_def)

text \<open>
  Two accesses in a row with a factory whose answer changes: the second result is the
  factory's new answer, not the first one kept.
\<close>

theorem observation_space_delegates_to_factory_witness:
  "observation_space widening example_env [] =
     (Inr \<lparr>low = [0], high = [1], shape = [1]\<rparr>, [GetObservationSpace]) \<and>
   observation_space widening example_env [GetObservationSpace] =
     (Inr \<lparr>low = [0, 0], high = [1, 1], shape = [2]\<rparr>,
      [GetObservationSpace, GetObservationSpace])"
  using observation_space_delegates_to_factory
    [where X = widening and self = example_env and h = "[]"]
    observation_space_delegates_to_factory
    [where X = widening and self = example_env and h = "[GetObservationSpace]"]
  by (simp add: widening_def accepting_def spaces_Box_def get_observation_space_def perform_def
      numeral_2_eq_2)

end
